theory Spec2Isabelle
  imports Complex_Main
begin

section \<open>Numbers, errors and non-finite results\<close>

text \<open>
  The simulation in \<^verbatim>\<open>water_treatment_simulation.py\<close> computes with Python floats and
  NumPy \<^verbatim>\<open>float64\<close> arrays. They are embedded as \<^typ>\<open>real\<close>: every statement below is
  about the formulas in exact arithmetic, rounding is not modelled.

  Division by zero is written out where it can happen on a distribution or a
  constructor argument. A division of Python numbers raises \<^verbatim>\<open>ZeroDivisionError\<close>
  (\<open>py_div\<close>); a division of NumPy values raises nothing and yields \<^verbatim>\<open>inf\<close> or
  \<^verbatim>\<open>nan\<close> (the module silences the warning with \<^verbatim>\<open>warnings.filterwarnings('ignore')\<close>),
  which is \<open>None\<close> here (\<open>np_div\<close>, and the type \<open>np_float\<close> of an array entry that may be
  one): the result is not a finite number. An exception of the ODE solver is an error
  value as well.
  The physical parameters that the kernels and the settling law divide by (viscosity,
  water density, floc density, tank height, bin diameters) are nonzero in every statement
  that uses them.
\<close>

datatype error = ZeroDivisionError | IndexError | ValueError

type_synonym np_float = "real option"

definition py_div :: "real \<Rightarrow> real \<Rightarrow> error + real" where
  "py_div a b = (if b = 0 then Inl ZeroDivisionError else Inr (a / b))"

definition np_div :: "real \<Rightarrow> real \<Rightarrow> real option" where
  "np_div a b = (if b = 0 then None else Some (a / b))"

section \<open>WaterProperties\<close>

text \<open>
  The fields of \<^verbatim>\<open>WaterProperties\<close>. \<open>density\<close> and \<open>viscosity\<close> are set by
  \<^verbatim>\<open>update_properties\<close> from the temperature when the object is built; the stages only
  read them, so they are fields of the record.
\<close>

record water_properties =
  temperature :: real
  pH :: real
  alkalinity :: real
  turbidity :: real
  density :: real
  viscosity :: real

text \<open>
  \<^verbatim>\<open>add_coagulant(self, al2so4_conc, volume)\<close>. The module-level flag
  \<^verbatim>\<open>HAS_PYEQL\<close> (whether \<^verbatim>\<open>import pyEQL\<close> succeeded) is the first argument: with pyEQL
  the branch is \<^verbatim>\<open>pass\<close> and the pH is not touched. The method mutates \<^verbatim>\<open>self\<close> and
  returns \<^verbatim>\<open>(self.pH, self.alkalinity)\<close>; the model returns that pair and the new state.
\<close>

definition add_coagulant ::
  "bool \<Rightarrow> real \<Rightarrow> real \<Rightarrow> water_properties \<Rightarrow> (real \<times> real) \<times> water_properties" where
  "add_coagulant has_pyeql al2so4_conc volume w =
     (let molar_conc = al2so4_conc / 342.15;
          alkalinity_consumed = molar_conc * 6 * 100.09 * 1000;
          w1 = w\<lparr>alkalinity := max 0 (alkalinity w - alkalinity_consumed)\<rparr>;
          w2 = (if has_pyeql then w1
                else if alkalinity_consumed > 0 then
                  (let buffer_capacity = 0.15;
                       delta_pH = - (alkalinity_consumed / 100.0) * buffer_capacity
                   in w1\<lparr>pH := max 4.0 (min 9.0 (pH w1 + delta_pH))\<rparr>)
                else w1)
      in ((pH w2, alkalinity w2), w2))"

section \<open>ParticleDistribution\<close>

text \<open>
  The two arrays of a \<^verbatim>\<open>ParticleDistribution\<close>. The entries of the concentrations are
  reals on the way into a stage; after \<^verbatim>\<open>normalize\<close> they are \<open>np_float\<close>.
\<close>

record 'a particle_distribution =
  sizes :: "real list"
  concentrations :: "'a list"

text \<open>
  \<^verbatim>\<open>np.trapz(y, x)\<close>: the sum of \<open>(x[i+1] - x[i]) * (y[i+1] + y[i]) / 2\<close>. The two arrays of a
  distribution have the same length.
\<close>

fun trapz :: "real list \<Rightarrow> real list \<Rightarrow> real" where
  "trapz (y0 # y1 # ys) (x0 # x1 # xs) = (x1 - x0) * (y1 + y0) / 2 + trapz (y1 # ys) (x1 # xs)"
| "trapz _ _ = 0"

text \<open>
  \<^verbatim>\<open>np.trapz\<close> on an array that may hold \<^verbatim>\<open>nan\<close> or \<^verbatim>\<open>inf\<close>: a term with such an entry
  makes the sum one; with fewer than two points the sum is empty and is 0.
\<close>

fun trapz_np :: "np_float list \<Rightarrow> real list \<Rightarrow> np_float" where
  "trapz_np (y0 # y1 # ys) (x0 # x1 # xs) =
     (case (y0, y1, trapz_np (y1 # ys) (x1 # xs)) of
        (Some a, Some b, Some r) \<Rightarrow> Some ((x1 - x0) * (b + a) / 2 + r)
      | _ \<Rightarrow> None)"
| "trapz_np _ _ = Some 0"

text \<open>
  \<^verbatim>\<open>normalize\<close> assigns \<^verbatim>\<open>self.concentrations * total_concentration / current_total\<close>, a
  NumPy division in every entry, and leaves the sizes alone. With a current total of zero
  every entry becomes \<^verbatim>\<open>nan\<close> or \<^verbatim>\<open>inf\<close>.
\<close>

definition normalize :: "real particle_distribution \<Rightarrow> real \<Rightarrow> np_float particle_distribution" where
  "normalize p total_concentration =
     (let current_total = trapz (concentrations p) (sizes p)
      in \<lparr>sizes = sizes p,
          concentrations =
            map (\<lambda>c. np_div (c * total_concentration) current_total) (concentrations p)\<rparr>)"

definition mean_size :: "real particle_distribution \<Rightarrow> np_float" where
  "mean_size p =
     np_div (trapz (map2 (*) (sizes p) (concentrations p)) (sizes p))
            (trapz (concentrations p) (sizes p))"

section \<open>RapidMixing\<close>

record rapid_mixing =
  rm_volume :: real
  rm_flow_rate :: real
  rm_G :: real
  rm_mixing_time :: real
  rm_residence_time :: real

definition RapidMixing_init :: "real \<Rightarrow> real \<Rightarrow> real \<Rightarrow> real \<Rightarrow> error + rapid_mixing" where
  "RapidMixing_init volume flow_rate G mixing_time =
     (case py_div volume (flow_rate / 3600) of
        Inl e \<Rightarrow> Inl e
      | Inr rt \<Rightarrow> Inr \<lparr>rm_volume = volume, rm_flow_rate = flow_rate, rm_G = G,
                      rm_mixing_time = mixing_time, rm_residence_time = rt\<rparr>)"

text \<open>The two locals of \<^verbatim>\<open>RapidMixing.process\<close> that the zero-dose scenario names.\<close>

definition charge_neutralization :: "real \<Rightarrow> real" where
  "charge_neutralization coagulant_dose = min 1.0 (coagulant_dose / 0.05)"

definition size_scale :: "real \<Rightarrow> real" where
  "size_scale coagulant_dose = 1 + 0.1 * charge_neutralization coagulant_dose"

text \<open>
  \<^verbatim>\<open>RapidMixing.process\<close> returns the (mutated) water properties and a new distribution:
  the sizes scaled, the concentrations copied and then normalized to the input's total.
\<close>

definition RapidMixing_process ::
  "bool \<Rightarrow> rapid_mixing \<Rightarrow> water_properties \<Rightarrow> real particle_distribution \<Rightarrow> real
     \<Rightarrow> water_properties \<times> np_float particle_distribution" where
  "RapidMixing_process has_pyeql rm water_props particles coagulant_dose =
     (let (new_values, water_props') =
            add_coagulant has_pyeql coagulant_dose (rm_volume rm) water_props;
          new_particles =
            \<lparr>sizes = map (\<lambda>s. s * size_scale coagulant_dose) (sizes particles),
             concentrations = concentrations particles\<rparr>
      in (water_props',
          normalize new_particles (trapz (concentrations particles) (sizes particles))))"

section \<open>Flocculation: kernels and population balance\<close>

record flocculation =
  chambers :: int
  total_volume :: real
  G_avg :: real
  total_time :: real
  chamber_volume :: real
  chamber_time :: real

text \<open>
  \<^verbatim>\<open>Flocculation.__init__\<close> divides the volume and the time by the chamber count; it checks
  nothing else.
\<close>

definition Flocculation_init :: "int \<Rightarrow> real \<Rightarrow> real \<Rightarrow> real \<Rightarrow> error + flocculation" where
  "Flocculation_init n_chambers volume G time =
     (case py_div volume (real_of_int n_chambers) of
        Inl e \<Rightarrow> Inl e
      | Inr cv \<Rightarrow>
          (case py_div time (real_of_int n_chambers) of
             Inl e \<Rightarrow> Inl e
           | Inr ct \<Rightarrow> Inr \<lparr>chambers = n_chambers, total_volume = volume, G_avg = G,
                           total_time = time, chamber_volume = cv, chamber_time = ct\<rparr>))"

definition coagulation_kernel :: "real \<Rightarrow> real \<Rightarrow> real \<Rightarrow> real \<Rightarrow> real \<Rightarrow> real" where
  "coagulation_kernel di dj G temp visc =
     (let kB = 1.38 / 10 ^ 23;
          T = temp + 273.15;
          rho = 1000;
          K_brown = (2 * kB * T) / (3 * visc) * ((di + dj) ^ 2) / (di * dj);
          epsilon = (G ^ 2 * visc) / rho;
          nu = visc / rho;
          shear_rate = sqrt (epsilon / nu);
          alpha = 0.2;
          K_turb = alpha * shear_rate * (di + dj) ^ 3
      in K_brown + K_turb)"

definition breakage_kernel :: "real \<Rightarrow> real \<Rightarrow> real \<Rightarrow> real \<Rightarrow> real \<Rightarrow> real" where
  "breakage_kernel d G density_floc visc density_water =
     (let epsilon = (G ^ 2 * visc) / density_water;
          nu = visc / density_water;
          C_break = 1 / 10 ^ 5;
          shear_rate = sqrt (epsilon / nu);
          S = C_break * shear_rate * (d powr (2 / 3))
      in S)"

text \<open>
  The four terms of bin \<open>i\<close> in \<^verbatim>\<open>population_balance\<close>, each the accumulator of its loop.
  Sizes are stored in micrometres and converted to metres at every kernel call.
\<close>

definition birth :: "real list \<Rightarrow> real list \<Rightarrow> real \<Rightarrow> water_properties \<Rightarrow> nat \<Rightarrow> real" where
  "birth n szs G w i =
     (\<Sum>j\<leftarrow>[0..<i].
        if j < length szs \<and> i - j - 1 < length szs then
          0.5 * coagulation_kernel (szs ! j * (1 / 10 ^ 6)) (szs ! (i - j - 1) * (1 / 10 ^ 6)) G
                  (temperature w) (viscosity w) * n ! j * n ! (i - j - 1)
        else 0)"

definition death_agg :: "real list \<Rightarrow> real list \<Rightarrow> real \<Rightarrow> water_properties \<Rightarrow> nat \<Rightarrow> real" where
  "death_agg n szs G w i =
     (\<Sum>j\<leftarrow>[0..<length szs].
        coagulation_kernel (szs ! i * (1 / 10 ^ 6)) (szs ! j * (1 / 10 ^ 6)) G
          (temperature w) (viscosity w) * n ! i * n ! j)"

definition death_break :: "real list \<Rightarrow> real list \<Rightarrow> real \<Rightarrow> water_properties \<Rightarrow> nat \<Rightarrow> real" where
  "death_break n szs G w i =
     breakage_kernel (szs ! i * (1 / 10 ^ 6)) G 1200 (viscosity w) (density w) * n ! i"

definition birth_break :: "real list \<Rightarrow> real list \<Rightarrow> real \<Rightarrow> water_properties \<Rightarrow> nat \<Rightarrow> real" where
  "birth_break n szs G w i =
     (\<Sum>j\<leftarrow>[i + 1..<length szs].
        (let S_j = breakage_kernel (szs ! j * (1 / 10 ^ 6)) G 1200 (viscosity w) (density w);
             b_ij = (if j > i then 2.0 / real (j - i + 1) else 0.0)
         in b_ij * S_j * n ! j))"

text \<open>
  \<^verbatim>\<open>population_balance(self, t, n, sizes, G, water_props)\<close>: the right-hand side of the
  ODE, one entry per bin. The state \<open>n\<close> has one entry per size.
\<close>

definition population_balance ::
  "real \<Rightarrow> real list \<Rightarrow> real list \<Rightarrow> real \<Rightarrow> water_properties \<Rightarrow> real list" where
  "population_balance t n szs G w =
     map (\<lambda>i. birth n szs G w i - death_agg n szs G w i - death_break n szs G w i
               + birth_break n szs G w i)
       [0..<length szs]"

section \<open>Flocculation.process and the ODE solver\<close>

text \<open>
  \<^verbatim>\<open>scipy.integrate.solve_ivp\<close> is a library the repository calls; it is a parameter of the
  model. It either raises (a \<^verbatim>\<open>ValueError\<close> on an initial state that is not finite, for
  one) or returns a result object. The object carries the times reached, the states at
  those times (the columns of \<^verbatim>\<open>sol.y\<close>), and the outcome: \<^verbatim>\<open>status\<close> is \<open>-1\<close> and
  \<^verbatim>\<open>success\<close> is \<^verbatim>\<open>False\<close> when a step failed, and then the states are those reached
  before the failure.
\<close>

record ode_result =
  sol_t :: "real list"
  sol_y :: "real list list"
  sol_status :: int
  sol_success :: bool

type_synonym ode_solver =
  "(real \<Rightarrow> real list \<Rightarrow> real list) \<Rightarrow> real \<times> real \<Rightarrow> real list \<Rightarrow> real list
     \<Rightarrow> error + ode_result"

record chamber_result =
  chamber :: nat
  time :: "real list"
  distribution :: "real list list"
  mean_sizes :: "np_float list"

text \<open>\<^verbatim>\<open>np.linspace(a, b, num)\<close>, for \<open>num\<close> of at least two.\<close>

definition linspace :: "real \<Rightarrow> real \<Rightarrow> nat \<Rightarrow> real list" where
  "linspace a b num = map (\<lambda>k. a + real k * (b - a) / real (num - 1)) [0..<num]"

text \<open>
  One pass of the chamber loop of \<^verbatim>\<open>Flocculation.process\<close>: integrate (an exception of the
  solver leaves the loop), take the last column \<^verbatim>\<open>sol.y[:, -1]\<close> as the new concentrations
  (an \<^verbatim>\<open>IndexError\<close> when there is no column), append the chamber's record. Neither
  \<^verbatim>\<open>sol.status\<close> nor \<^verbatim>\<open>sol.success\<close> is read.
\<close>

definition chamber_step ::
  "ode_solver \<Rightarrow> flocculation \<Rightarrow> water_properties \<Rightarrow> nat
     \<Rightarrow> real particle_distribution \<times> chamber_result list
     \<Rightarrow> error + real particle_distribution \<times> chamber_result list" where
  "chamber_step solve_ivp fl water_props c st =
     (let (current_particles, results) = st;
          t_span = (0, chamber_time fl);
          t_eval = linspace 0 (chamber_time fl) 100
      in case solve_ivp (\<lambda>t n. population_balance t n (sizes current_particles)
                                    (G_avg fl) water_props)
                t_span (concentrations current_particles) t_eval of
           Inl e \<Rightarrow> Inl e
         | Inr sol \<Rightarrow>
             if sol_y sol = [] then Inl IndexError
             else
               (let current_particles' =
                      current_particles\<lparr>concentrations := last (sol_y sol)\<rparr>
                in Inr (current_particles',
                     results @
                     [\<lparr>chamber = c + 1, time = t_eval, distribution = sol_y sol,
                       mean_sizes =
                         map (\<lambda>dist.
                                np_div (trapz (map2 (*) (sizes current_particles') dist)
                                          (sizes current_particles'))
                                       (trapz dist (sizes current_particles')))
                           (sol_y sol)\<rparr>])))"

fun chamber_loop ::
  "ode_solver \<Rightarrow> flocculation \<Rightarrow> water_properties \<Rightarrow> nat list
     \<Rightarrow> real particle_distribution \<times> chamber_result list
     \<Rightarrow> error + real particle_distribution \<times> chamber_result list" where
  "chamber_loop solve_ivp fl water_props [] st = Inr st"
| "chamber_loop solve_ivp fl water_props (c # cs) st =
     (case chamber_step solve_ivp fl water_props c st of
        Inl e \<Rightarrow> Inl e
      | Inr st' \<Rightarrow> chamber_loop solve_ivp fl water_props cs st')"

definition Flocculation_process ::
  "ode_solver \<Rightarrow> flocculation \<Rightarrow> water_properties \<Rightarrow> real particle_distribution
     \<Rightarrow> error + real particle_distribution \<times> chamber_result list" where
  "Flocculation_process solve_ivp fl water_props particles =
     chamber_loop solve_ivp fl water_props [0..<nat (chambers fl)] (particles, [])"

section \<open>Sedimentation\<close>

record sedimentation =
  area :: real
  height :: real
  overflow_rate :: real
  residence_time :: real

definition Sedimentation_init :: "real \<Rightarrow> real \<Rightarrow> real \<Rightarrow> error + sedimentation" where
  "Sedimentation_init a h rate =
     (case py_div h (rate / 3600) of
        Inl e \<Rightarrow> Inl e
      | Inr rt \<Rightarrow> Inr \<lparr>area = a, height = h, overflow_rate = rate, residence_time = rt\<rparr>)"

definition settling_velocity :: "real \<Rightarrow> real \<Rightarrow> water_properties \<Rightarrow> real" where
  "settling_velocity diameter density_particle water_props =
     (let d = diameter * (1 / 10 ^ 6);
          rho_p = density_particle;
          rho_w = density water_props;
          mu = viscosity water_props;
          g = 9.81;
          vs_stokes = g * d ^ 2 * (rho_p - rho_w) / (18 * mu);
          Re = rho_w * vs_stokes * d / mu
      in if Re > 0.1 then
           (let Cd = 24 / Re + 3 / sqrt Re + 0.34
            in sqrt (4 * g * d * (rho_p - rho_w) / (3 * Cd * rho_w)))
         else vs_stokes)"

definition hindered_settling :: "real \<Rightarrow> real \<Rightarrow> real \<Rightarrow> real \<Rightarrow> real" where
  "hindered_settling vs0 concentration density_particle n =
     (let conc_kg_m3 = concentration / 10 ^ 6;
          phi = conc_kg_m3 / density_particle;
          phi' = min 0.6 (max 0.0 phi)
      in vs0 * (1 - phi') powr n)"

text \<open>
  The dictionary \<^verbatim>\<open>Sedimentation.process\<close> returns. The overall efficiency is a NumPy
  quotient by the initial total, computed without a test of the divisor.
\<close>

record sedimentation_result =
  effluent_concentration :: real
  removal_efficiency :: "real option"
  size_distribution :: "real list"
  settling_velocities :: "real list"

definition Sedimentation_process ::
  "sedimentation \<Rightarrow> water_properties \<Rightarrow> real particle_distribution \<Rightarrow> real
     \<Rightarrow> sedimentation_result" where
  "Sedimentation_process sed water_props particles floc_density =
     (let velocities = map (\<lambda>d. settling_velocity d floc_density water_props) (sizes particles);
          total_conc = trapz (concentrations particles) (sizes particles);
          vs_hindered = map (\<lambda>vs. hindered_settling vs total_conc floc_density 4.65) velocities;
          removal_by_size = map (\<lambda>v. min 1.0 (v * residence_time sed / height sed)) vs_hindered;
          effluent_conc = map2 (\<lambda>c r. c * (1 - r)) (concentrations particles) removal_by_size;
          initial_total = trapz (concentrations particles) (sizes particles);
          final_total = trapz effluent_conc (sizes particles);
          overall_efficiency =
            map_option (\<lambda>q. q * 100) (np_div (initial_total - final_total) initial_total)
      in \<lparr>effluent_concentration = final_total,
          removal_efficiency = overall_efficiency,
          size_distribution = effluent_conc,
          settling_velocities = vs_hindered\<rparr>)"

section \<open>The coagulation rate as the specification words it\<close>

text \<open>
  Section 4.2 of the specification: a Brownian term \<open>(2 kB T)/(3 \<mu>) (di+dj)\<^sup>2/(di dj)\<close> with
  \<open>T\<close> in Kelvin, and a turbulent term \<open>0.2 \<surd>(\<epsilon>/\<nu>) (di+dj)\<^sup>3\<close> with \<open>\<epsilon> = G\<^sup>2 \<mu>/\<rho>\<close>,
  \<open>\<nu> = \<mu>/\<rho>\<close> and \<open>\<rho> = 1000\<close>. The Boltzmann constant is an argument, so that the
  specification's value and the source's value can both be put in.
\<close>

definition coagulationRate_spec :: "real \<Rightarrow> real \<Rightarrow> real \<Rightarrow> real \<Rightarrow> real \<Rightarrow> real \<Rightarrow> real" where
  "coagulationRate_spec kB di dj G temp mu =
     (let T = temp + 273.15;
          rho = 1000;
          brownian = (2 * kB * T) / (3 * mu) * (di + dj) ^ 2 / (di * dj);
          epsilon = G ^ 2 * mu / rho;
          nu = mu / rho;
          shearRate = sqrt (epsilon / nu);
          turbulent = 0.2 * shearRate * (di + dj) ^ 3
      in brownian + turbulent)"

section \<open>Concrete inputs\<close>

text \<open>
  The baseline scenario of the repository's test script: 20 degrees, pH 7.5, alkalinity 120,
  three chambers over 1800 s, a 3 m deep settler at an overflow rate of 10. Density and
  viscosity are the values of water at 20 degrees, rounded.
\<close>

definition water0 :: water_properties where
  "water0 = \<lparr>temperature = 20, pH = 7.5, alkalinity = 120, turbidity = 50,
             density = 998.2, viscosity = 0.001002\<rparr>"

definition mix0 :: rapid_mixing where
  "mix0 = \<lparr>rm_volume = 10, rm_flow_rate = 100, rm_G = 1000, rm_mixing_time = 30,
           rm_residence_time = 360\<rparr>"

definition floc0 :: flocculation where
  "floc0 = \<lparr>chambers = 3, total_volume = 200, G_avg = 50, total_time = 1800,
            chamber_volume = 200 / 3, chamber_time = 600\<rparr>"

definition sed0 :: sedimentation where
  "sed0 = \<lparr>area = 100, height = 3, overflow_rate = 10, residence_time = 1080\<rparr>"

text \<open>Two bins of 1 and 2 micrometres, with unit concentrations and with none.\<close>

definition particles0 :: "real particle_distribution" where
  "particles0 = \<lparr>sizes = [1, 2], concentrations = [1, 1]\<rparr>"

definition zero_particles :: "real particle_distribution" where
  "zero_particles = \<lparr>sizes = [1, 2], concentrations = [0, 0]\<rparr>"

text \<open>
  A solver whose integration fails at once: it reports the failure the way
  \<^verbatim>\<open>solve_ivp\<close> does and hands back the one state it has, the initial one.
\<close>

definition failing_solver :: ode_solver where
  "failing_solver f t_span y0 t_eval =
     Inr \<lparr>sol_t = [fst t_span], sol_y = [y0], sol_status = - 1, sol_success = False\<rparr>"

text \<open>A solver with the outcome fields of its results overwritten.\<close>

definition with_outcome :: "ode_solver \<Rightarrow> int \<Rightarrow> bool \<Rightarrow> ode_solver" where
  "with_outcome solve_ivp st ok f t_span y0 t_eval =
     (case solve_ivp f t_span y0 t_eval of
        Inl e \<Rightarrow> Inl e
      | Inr sol \<Rightarrow> Inr (sol\<lparr>sol_status := st, sol_success := ok\<rparr>))"

section \<open>The constructors on the baseline scenario\<close>

lemma RapidMixing_init_baseline: "RapidMixing_init 10 100 1000 30 = Inr mix0"
  by (simp add: RapidMixing_init_def py_div_def mix0_def)

lemma Flocculation_init_baseline: "Flocculation_init 3 200 50 1800 = Inr floc0"
  by (simp add: Flocculation_init_def py_div_def floc0_def)

lemma Sedimentation_init_baseline: "Sedimentation_init 100 3 10 = Inr sed0"
  by (simp add: Sedimentation_init_def py_div_def sed0_def)

section \<open>Coagulant dose\<close>

text \<open>
  C7, as amended. With the simplified pH model (pyEQL not installed) and a dose of at least
  zero, \<open>add_coagulant\<close> stores the alkalinity \<open>max(0, alkalinity - consumed)\<close> with
  \<open>consumed = dose / 342.15 * 6 * 100.09 * 1000\<close>, returns the stored pH and alkalinity, and
  for a positive dose stores the pH \<open>pH - consumed / 100 * 0.15\<close> clamped to \<open>[4, 9]\<close>. For a
  dose of zero the guard \<^verbatim>\<open>if alkalinity_consumed > 0\<close> skips the update and the pH stays
  as it was, clamped or not.
\<close>

theorem add_coagulant_postcondition:
  assumes "\<not> has_pyeql" and "0 \<le> dose"
  shows "add_coagulant has_pyeql dose volume w =
           ((pH (snd (add_coagulant has_pyeql dose volume w)),
             alkalinity (snd (add_coagulant has_pyeql dose volume w))),
            snd (add_coagulant has_pyeql dose volume w))
         \<and> alkalinity (snd (add_coagulant has_pyeql dose volume w)) =
             max 0 (alkalinity w - (dose / 342.15) * 6 * 100.09 * 1000)
         \<and> pH (snd (add_coagulant has_pyeql dose volume w)) =
             (if 0 < dose
              then max 4.0 (min 9.0 (pH w - ((dose / 342.15) * 6 * 100.09 * 1000 / 100) * 0.15))
              else pH w)
         \<and> temperature (snd (add_coagulant has_pyeql dose volume w)) = temperature w
         \<and> density (snd (add_coagulant has_pyeql dose volume w)) = density w
         \<and> viscosity (snd (add_coagulant has_pyeql dose volume w)) = viscosity w"
  using assms by (auto simp add: add_coagulant_def Let_def)

theorem add_coagulant_postcondition_baseline:
  "\<not> False \<and> (0::real) \<le> 0.02
   \<and> add_coagulant False 0.02 10 water0 =
       ((pH (snd (add_coagulant False 0.02 10 water0)),
         alkalinity (snd (add_coagulant False 0.02 10 water0))),
        snd (add_coagulant False 0.02 10 water0))
   \<and> alkalinity (snd (add_coagulant False 0.02 10 water0)) = 193648 / 2281
   \<and> pH (snd (add_coagulant False 0.02 10 water0)) = 2123424 / 285125"
proof -
  have h: "\<not> False" "(0::real) \<le> 0.02" by simp_all
  show ?thesis
    using add_coagulant_postcondition [OF h, of 10 water0]
    by (simp add: water0_def)
qed

text \<open>
  The claim as written fails at a dose of zero on water of pH 10: the stored pH is 10, and
  the clamp of the claim gives 9.
\<close>

theorem add_coagulant_zero_dose_pH_10:
  "pH (snd (add_coagulant False 0 10 (water0\<lparr>pH := 10\<rparr>))) = 10
   \<and> max 4.0 (min 9.0 (pH (water0\<lparr>pH := 10\<rparr>) - ((0 / 342.15) * 6 * 100.09 * 1000 / 100) * 0.15))
       = (9::real)"
  by (simp add: add_coagulant_def Let_def water0_def)

text \<open>
  C8, as amended. The alkalinity after \<open>add_coagulant\<close> is at least 0 for every dose. With
  the simplified pH model and a positive dose, however large, the pH after it lies in
  \<open>[4, 9]\<close>.
\<close>

theorem add_coagulant_clamps:
  "0 \<le> alkalinity (snd (add_coagulant has_pyeql dose volume w))
   \<and> (\<not> has_pyeql \<longrightarrow> 0 < dose \<longrightarrow>
        4.0 \<le> pH (snd (add_coagulant has_pyeql dose volume w)) \<and>
        pH (snd (add_coagulant has_pyeql dose volume w)) \<le> 9.0)"
  by (auto simp add: add_coagulant_def Let_def)

theorem add_coagulant_clamps_large_dose:
  "0 \<le> alkalinity (snd (add_coagulant False 1000 10 water0))
   \<and> \<not> False \<and> (0::real) < 1000
   \<and> 4.0 \<le> pH (snd (add_coagulant False 1000 10 water0))
   \<and> pH (snd (add_coagulant False 1000 10 water0)) \<le> 9.0"
  using add_coagulant_clamps [of False 1000 10 water0] by simp

text \<open>
  The claim as written fails at a dose of zero on water of pH 3: nothing is consumed, the pH
  is not updated and stays below 4.
\<close>

theorem add_coagulant_zero_dose_pH_3:
  "pH (snd (add_coagulant False 0 10 (water0\<lparr>pH := 3\<rparr>))) < 4.0"
  by (simp add: add_coagulant_def Let_def water0_def)

section \<open>Rapid mixing\<close>

lemma trapz_scale_concentrations: "trapz (map (\<lambda>c. c * k) ys) xs = k * trapz ys xs"
  by (induction ys xs rule: trapz.induct) (simp_all add: algebra_simps)

lemma trapz_scale_sizes: "trapz ys (map (\<lambda>s. s * k) xs) = k * trapz ys xs"
  by (induction ys xs rule: trapz.induct) (simp_all add: algebra_simps)

lemma trapz_np_finite:
  "trapz_np (map (\<lambda>c. Some (f c)) ys) xs = Some (trapz (map f ys) xs)" for ys :: "real list"
  by (induction ys xs rule: trapz.induct) simp_all

lemma trapz_np_nan:
  "2 \<le> length ys \<Longrightarrow> 2 \<le> length xs \<Longrightarrow> trapz_np (map (\<lambda>c. None) ys) xs = None"
  by (cases ys; cases xs; cases "tl ys"; cases "tl xs") auto

lemma normalize_nonzero:
  "trapz (concentrations p) (sizes p) \<noteq> 0 \<Longrightarrow>
   normalize p tc =
     \<lparr>sizes = sizes p,
      concentrations = map (\<lambda>c. Some (c * (tc / trapz (concentrations p) (sizes p))))
                         (concentrations p)\<rparr>"
  by (simp add: normalize_def np_div_def Let_def)

lemma normalize_zero:
  "trapz (concentrations p) (sizes p) = 0 \<Longrightarrow>
   normalize p tc = \<lparr>sizes = sizes p, concentrations = map (\<lambda>c. None) (concentrations p)\<rparr>"
  by (simp add: normalize_def np_div_def Let_def)

text \<open>
  C9. On water of non-negative alkalinity a dose of zero leaves the water properties as
  they are, the charge-neutralization factor is 0, the scale factor is 1 and the output
  sizes are the input sizes. For every dose other than \<open>-0.5\<close> (where the scale factor is
  0): when the input's total mass is not zero, the output's total mass is the input's; when
  it is zero, the normalization divides by zero, every output concentration is \<^verbatim>\<open>nan\<close>, and
  with two bins or more so is the output's total mass, where the input's is 0.
\<close>

theorem RapidMixing_process_zero_dose:
  assumes alk: "0 \<le> alkalinity w"
    and len: "length (sizes p) = length (concentrations p)"
    and dose: "dose \<noteq> - (1 / 2)"
  shows "fst (RapidMixing_process has_pyeql rm w p 0) = w
       \<and> charge_neutralization 0 = 0
       \<and> size_scale 0 = 1
       \<and> sizes (snd (RapidMixing_process has_pyeql rm w p 0)) = sizes p
       \<and> (trapz (concentrations p) (sizes p) \<noteq> 0 \<longrightarrow>
            trapz_np (concentrations (snd (RapidMixing_process has_pyeql rm w p dose)))
                     (sizes (snd (RapidMixing_process has_pyeql rm w p dose)))
              = Some (trapz (concentrations p) (sizes p)))
       \<and> (trapz (concentrations p) (sizes p) = 0 \<longrightarrow>
            concentrations (snd (RapidMixing_process has_pyeql rm w p dose))
              = map (\<lambda>c. None) (concentrations p)
            \<and> (2 \<le> length (sizes p) \<longrightarrow>
                 trapz_np (concentrations (snd (RapidMixing_process has_pyeql rm w p dose)))
                          (sizes (snd (RapidMixing_process has_pyeql rm w p dose))) = None))"
proof -
  let ?I = "trapz (concentrations p) (sizes p)"
  let ?q = "snd (RapidMixing_process has_pyeql rm w p dose)"
  have a: "fst (RapidMixing_process has_pyeql rm w p 0) = w"
    using alk by (simp add: RapidMixing_process_def add_coagulant_def Let_def max_def)
  have cn: "charge_neutralization 0 = 0"
    by (simp add: charge_neutralization_def)
  have ss: "size_scale 0 = 1"
    by (simp add: size_scale_def charge_neutralization_def)
  have b: "sizes (snd (RapidMixing_process has_pyeql rm w p 0)) = sizes p"
    by (simp add: RapidMixing_process_def normalize_def Let_def ss split_beta)
  have k: "size_scale dose \<noteq> 0"
    using dose by (auto simp add: size_scale_def charge_neutralization_def min_def)
  have q: "?q = normalize \<lparr>sizes = map (\<lambda>s. s * size_scale dose) (sizes p),
                             concentrations = concentrations p\<rparr> ?I"
    by (simp add: RapidMixing_process_def Let_def split_beta)
  have cur: "trapz (concentrations p) (map (\<lambda>s. s * size_scale dose) (sizes p))
               = size_scale dose * ?I"
    by (rule trapz_scale_sizes)
  have c: "trapz_np (concentrations ?q) (sizes ?q) = Some ?I" if nz: "?I \<noteq> 0"
  proof -
    have "size_scale dose * ?I \<noteq> 0" using k nz by simp
    then have "?q = \<lparr>sizes = map (\<lambda>s. s * size_scale dose) (sizes p),
                      concentrations = map (\<lambda>c. Some (c * (?I / (size_scale dose * ?I))))
                                         (concentrations p)\<rparr>"
      unfolding q by (subst normalize_nonzero) (simp_all add: cur)
    then have "trapz_np (concentrations ?q) (sizes ?q)
                 = Some (trapz (map (\<lambda>c. c * (?I / (size_scale dose * ?I))) (concentrations p))
                           (map (\<lambda>s. s * size_scale dose) (sizes p)))"
      by (simp add: trapz_np_finite)
    also have "\<dots> = Some (size_scale dose * ((?I / (size_scale dose * ?I)) * ?I))"
      by (simp only: trapz_scale_sizes trapz_scale_concentrations)
    also have "\<dots> = Some ?I" using k nz by simp
    finally show ?thesis .
  qed
  have d: "concentrations ?q = map (\<lambda>c. None) (concentrations p)" if z: "?I = 0"
    unfolding q by (subst normalize_zero) (simp_all add: cur z)
  have sq: "length (sizes ?q) = length (sizes p)"
    unfolding q by (simp add: normalize_def Let_def)
  have e: "trapz_np (concentrations ?q) (sizes ?q) = None" if z: "?I = 0" and l: "2 \<le> length (sizes p)"
    using l len sq by (simp add: d [OF z] trapz_np_nan)
  show ?thesis using a cn ss b c d e by blast
qed

theorem RapidMixing_process_zero_dose_two_bins:
  "0 \<le> alkalinity water0
   \<and> length (sizes particles0) = length (concentrations particles0)
   \<and> (0.02::real) \<noteq> - (1 / 2)
   \<and> fst (RapidMixing_process False mix0 water0 particles0 0) = water0
   \<and> sizes (snd (RapidMixing_process False mix0 water0 particles0 0)) = sizes particles0
   \<and> trapz (concentrations particles0) (sizes particles0) \<noteq> 0
   \<and> trapz_np (concentrations (snd (RapidMixing_process False mix0 water0 particles0 0.02)))
               (sizes (snd (RapidMixing_process False mix0 water0 particles0 0.02)))
        = Some (trapz (concentrations particles0) (sizes particles0))
   \<and> trapz (concentrations zero_particles) (sizes zero_particles) = 0
   \<and> 2 \<le> length (sizes zero_particles)
   \<and> sizes (snd (RapidMixing_process False mix0 water0 zero_particles 0)) = sizes zero_particles
   \<and> trapz_np (concentrations (snd (RapidMixing_process False mix0 water0 zero_particles 0)))
               (sizes (snd (RapidMixing_process False mix0 water0 zero_particles 0))) = None"
proof -
  have w: "0 \<le> alkalinity water0" by (simp add: water0_def)
  have p: "length (sizes particles0) = length (concentrations particles0)"
    "trapz (concentrations particles0) (sizes particles0) \<noteq> 0"
    by (simp_all add: particles0_def)
  have z: "length (sizes zero_particles) = length (concentrations zero_particles)"
    "trapz (concentrations zero_particles) (sizes zero_particles) = 0"
    "2 \<le> length (sizes zero_particles)"
    by (simp_all add: zero_particles_def)
  have d: "(0.02::real) \<noteq> - (1 / 2)" "(0::real) \<noteq> - (1 / 2)" by simp_all
  note a = RapidMixing_process_zero_dose [OF w p(1) d(1), of False mix0]
  note b = RapidMixing_process_zero_dose [OF w z(1) d(2), of False mix0]
  show ?thesis using w p z d(1) a b by blast
qed

section \<open>The kernels\<close>

text \<open>
  C6, as amended. For positive diameters and a viscosity other than zero the kernel is the
  sum of the Brownian and the turbulent term of the specification with the Boltzmann
  constant \<open>1.38e-23\<close>, the value in the source.
\<close>

theorem coagulation_kernel_formula:
  assumes "0 < di" and "0 < dj" and "mu \<noteq> 0"
  shows "coagulation_kernel di dj G temp mu =
           coagulationRate_spec (1.38 / 10 ^ 23) di dj G temp mu"
  unfolding coagulation_kernel_def coagulationRate_spec_def Let_def by (rule refl)

theorem coagulation_kernel_formula_micron:
  "(0::real) < 1 / 10 ^ 6 \<and> (0.001::real) \<noteq> 0
   \<and> coagulation_kernel (1 / 10 ^ 6) (1 / 10 ^ 6) 50 20 0.001 =
       coagulationRate_spec (1.38 / 10 ^ 23) (1 / 10 ^ 6) (1 / 10 ^ 6) 50 20 0.001"
proof -
  have h: "(0::real) < 1 / 10 ^ 6" "(0.001::real) \<noteq> 0" by simp_all
  show ?thesis
    using h coagulation_kernel_formula [OF h(1) h(1) h(2), of 50 20] by blast
qed

text \<open>
  With the constant of the specification, \<open>1.380649e-23\<close>, the formula gives another value
  than the source: two particles of one micrometre at 20 degrees.
\<close>

theorem coagulation_kernel_not_codata_kB:
  "coagulation_kernel (1 / 10 ^ 6) (1 / 10 ^ 6) 50 20 0.001
     \<noteq> coagulationRate_spec (1.380649 / 10 ^ 23) (1 / 10 ^ 6) (1 / 10 ^ 6) 50 20 0.001"
  by (simp add: coagulation_kernel_def coagulationRate_spec_def Let_def)

text \<open>
  C10, as amended. For positive diameters, viscosity and density, the shear rate
  \<open>\<surd>(\<epsilon>/\<nu>)\<close> is the absolute value of \<open>G\<close>, and so \<open>G\<close> itself when \<open>G\<close> is at least zero; the
  turbulent term of the coagulation kernel is \<open>0.2 |G| (di+dj)\<^sup>3\<close> and the breakage rate is
  \<open>1e-5 |G| d\<^sup>2\<^sup>/\<^sup>3\<close>: neither depends on the viscosity or the density.
\<close>

theorem shear_rate_is_abs_G:
  assumes "0 < mu" and "0 < rho_w" and "0 < di" and "0 < dj" and "0 < d"
  shows "sqrt ((G ^ 2 * mu / rho_w) / (mu / rho_w)) = \<bar>G\<bar>
       \<and> coagulation_kernel di dj G temp mu =
           (2 * (1.38 / 10 ^ 23) * (temp + 273.15)) / (3 * mu) * (di + dj) ^ 2 / (di * dj)
           + 0.2 * \<bar>G\<bar> * (di + dj) ^ 3
       \<and> breakage_kernel d G rho_f mu rho_w = 1 / 10 ^ 5 * \<bar>G\<bar> * d powr (2 / 3)
       \<and> (0 \<le> G \<longrightarrow>
            sqrt ((G ^ 2 * mu / rho_w) / (mu / rho_w)) = G
            \<and> coagulation_kernel di dj G temp mu =
                (2 * (1.38 / 10 ^ 23) * (temp + 273.15)) / (3 * mu) * (di + dj) ^ 2 / (di * dj)
                + 0.2 * G * (di + dj) ^ 3
            \<and> breakage_kernel d G rho_f mu rho_w = 1 / 10 ^ 5 * G * d powr (2 / 3))"
  using assms by (simp add: coagulation_kernel_def breakage_kernel_def Let_def)

theorem shear_rate_is_abs_G_baseline:
  "(0::real) < 0.001002 \<and> (0::real) < 998.2 \<and> (0::real) < 1 / 10 ^ 6 \<and> (0::real) \<le> 50
   \<and> sqrt ((50 ^ 2 * 0.001002 / 998.2) / (0.001002 / 998.2)) = (50::real)
   \<and> coagulation_kernel (1 / 10 ^ 6) (1 / 10 ^ 6) 50 20 0.001002 =
           (2 * (1.38 / 10 ^ 23) * (20 + 273.15)) / (3 * 0.001002)
             * (1 / 10 ^ 6 + 1 / 10 ^ 6) ^ 2 / (1 / 10 ^ 6 * (1 / 10 ^ 6))
           + 0.2 * 50 * (1 / 10 ^ 6 + 1 / 10 ^ 6) ^ 3
   \<and> breakage_kernel (1 / 10 ^ 6) 50 1200 0.001002 998.2
       = 1 / 10 ^ 5 * 50 * (1 / 10 ^ 6) powr (2 / 3)"
proof -
  have h: "(0::real) < 0.001002" "(0::real) < 998.2" by simp_all
  have d: "(0::real) < 1 / 10 ^ 6" by simp
  have g: "(0::real) \<le> 50" by simp
  show ?thesis
    using h d g shear_rate_is_abs_G [OF h d d d, of 50 20 1200] by blast
qed

text \<open>
  The claim as written fails at \<open>G = -50\<close>: the square root gives 50, so the breakage rate
  and the turbulent term are those of \<open>G = 50\<close>, not \<open>1e-5 G d\<^sup>2\<^sup>/\<^sup>3\<close> and
  \<open>0.2 G (di+dj)\<^sup>3\<close>.
\<close>

theorem shear_rate_negative_G:
  "breakage_kernel (1 / 10 ^ 6) (- 50) 1200 0.001002 998.2
     = 1 / 10 ^ 5 * 50 * (1 / 10 ^ 6) powr (2 / 3)
   \<and> breakage_kernel (1 / 10 ^ 6) (- 50) 1200 0.001002 998.2
     \<noteq> 1 / 10 ^ 5 * (- 50) * (1 / 10 ^ 6) powr (2 / 3)
   \<and> coagulation_kernel (1 / 10 ^ 6) (1 / 10 ^ 6) (- 50) 20 0.001002
     \<noteq> (2 * (1.38 / 10 ^ 23) * (20 + 273.15)) / (3 * 0.001002)
             * (1 / 10 ^ 6 + 1 / 10 ^ 6) ^ 2 / (1 / 10 ^ 6 * (1 / 10 ^ 6))
           + 0.2 * (- 50) * (1 / 10 ^ 6 + 1 / 10 ^ 6) ^ 3"
proof -
  have p: "0 < (1 / 10 ^ 6 :: real) powr (2 / 3)" by simp
  have s: "sqrt (((- 50) ^ 2 * 0.001002 / 998.2) / (0.001002 / 998.2)) = (50::real)"
    by simp
  have b: "breakage_kernel (1 / 10 ^ 6) (- 50) 1200 0.001002 998.2
             = 1 / 10 ^ 5 * 50 * (1 / 10 ^ 6) powr (2 / 3)"
    unfolding breakage_kernel_def Let_def s by (rule refl)
  have nb: "1 / 10 ^ 5 * 50 * (1 / 10 ^ 6 :: real) powr (2 / 3)
              \<noteq> 1 / 10 ^ 5 * (- 50) * (1 / 10 ^ 6) powr (2 / 3)"
    using p by simp
  have k: "coagulation_kernel (1 / 10 ^ 6) (1 / 10 ^ 6) (- 50) 20 0.001002
     = (2 * (1.38 / 10 ^ 23) * (20 + 273.15)) / (3 * 0.001002)
             * (1 / 10 ^ 6 + 1 / 10 ^ 6) ^ 2 / (1 / 10 ^ 6 * (1 / 10 ^ 6))
           + 0.2 * 50 * (1 / 10 ^ 6 + 1 / 10 ^ 6) ^ 3"
    by (simp add: coagulation_kernel_def Let_def)
  have nk: "(0.2::real) * 50 * (1 / 10 ^ 6 + 1 / 10 ^ 6) ^ 3 \<noteq> 0.2 * (- 50) * (1 / 10 ^ 6 + 1 / 10 ^ 6) ^ 3"
    by simp
  have nb2: "breakage_kernel (1 / 10 ^ 6) (- 50) 1200 0.001002 998.2
     \<noteq> 1 / 10 ^ 5 * (- 50) * (1 / 10 ^ 6) powr (2 / 3)"
    unfolding b by (rule nb)
  have nk2: "coagulation_kernel (1 / 10 ^ 6) (1 / 10 ^ 6) (- 50) 20 0.001002
     \<noteq> (2 * (1.38 / 10 ^ 23) * (20 + 273.15)) / (3 * 0.001002)
             * (1 / 10 ^ 6 + 1 / 10 ^ 6) ^ 2 / (1 / 10 ^ 6 * (1 / 10 ^ 6))
           + 0.2 * (- 50) * (1 / 10 ^ 6 + 1 / 10 ^ 6) ^ 3"
    unfolding k using nk by (simp only: add_left_cancel not_False_eq_True)
  show ?thesis using b nb2 nk2 by blast
qed

section \<open>The right-hand side of the population balance\<close>

text \<open>
  At \<open>G = 0\<close> the shear rate is zero, so the breakage rate is zero in every bin and the
  turbulent term of the coagulation kernel is zero: what is left is Brownian aggregation.
  These are facts about the right-hand side only; the solution that the solver integrates
  from it is not modelled.
\<close>

lemma breakage_kernel_G0: "breakage_kernel d 0 rho_f mu rho_w = 0"
  by (simp add: breakage_kernel_def)

lemma death_break_G0: "death_break n szs 0 w i = 0"
  by (simp add: death_break_def breakage_kernel_G0)

lemma birth_break_G0: "birth_break n szs 0 w i = 0"
  by (simp add: birth_break_def breakage_kernel_G0)

lemma population_balance_G0:
  "population_balance t n szs 0 w =
     map (\<lambda>i. birth n szs 0 w i - death_agg n szs 0 w i) [0..<length szs]"
  by (simp add: population_balance_def death_break_G0 birth_break_G0)

lemma upt_0_2: "[0..<2] = [0, 1]"
  by (simp add: upt_rec numeral_2_eq_2)

lemma upt_0_3: "[0..<3] = [0, 1, 2]"
  by (simp add: upt_rec numeral_3_eq_3)

text \<open>
  Two bins: the trapezoid-weighted sum of the aggregation terms is the half bin width times
  the sum of the two entries. The one birth term, \<open>0.5 K(s0,s0) n0\<^sup>2\<close> into bin 1, makes up
  for half of one of the four death terms.
\<close>

lemma two_bin_aggregation_rate:
  "trapz (map (\<lambda>i. birth [n0, n1] [s0, s1] G w i - death_agg [n0, n1] [s0, s1] G w i) [0..<2])
     [s0, s1] =
     - ((s1 - s0) / 2) *
       (0.5 * coagulation_kernel (s0 * (1 / 10 ^ 6)) (s0 * (1 / 10 ^ 6)) G (temperature w) (viscosity w) * n0 * n0
        + coagulation_kernel (s0 * (1 / 10 ^ 6)) (s1 * (1 / 10 ^ 6)) G (temperature w) (viscosity w) * n0 * n1
        + coagulation_kernel (s1 * (1 / 10 ^ 6)) (s0 * (1 / 10 ^ 6)) G (temperature w) (viscosity w) * n1 * n0
        + coagulation_kernel (s1 * (1 / 10 ^ 6)) (s1 * (1 / 10 ^ 6)) G (temperature w) (viscosity w) * n1 * n1)"
  by (simp add: upt_0_2 birth_def death_agg_def) (simp add: field_simps)

section \<open>Flocculation.process and a failed integration\<close>

lemma chamber_step_outcome:
  "chamber_step (with_outcome solve_ivp st ok) fl w c s = chamber_step solve_ivp fl w c s"
  by (simp add: chamber_step_def with_outcome_def Let_def split_beta split: sum.splits)

lemma chamber_loop_outcome:
  "chamber_loop (with_outcome solve_ivp st ok) fl w cs s = chamber_loop solve_ivp fl w cs s"
  by (induction cs arbitrary: s) (simp_all add: chamber_step_outcome split: sum.splits)

lemma chamber_step_chambers:
  "chamber_step solve_ivp (fl\<lparr>chambers := k\<rparr>) w c s = chamber_step solve_ivp fl w c s"
  by (simp add: chamber_step_def)

lemma chamber_loop_chambers:
  "chamber_loop solve_ivp (fl\<lparr>chambers := k\<rparr>) w cs s = chamber_loop solve_ivp fl w cs s"
  by (induction cs arbitrary: s) (simp_all add: chamber_step_chambers split: sum.splits)

lemma chamber_loop_snoc:
  "chamber_loop solve_ivp fl w (cs @ [c]) s =
     (case chamber_loop solve_ivp fl w cs s of
        Inl e \<Rightarrow> Inl e
      | Inr s' \<Rightarrow> chamber_step solve_ivp fl w c s')"
  by (induction cs arbitrary: s) (simp_all split: sum.splits)

lemma chamber_step_returned:
  assumes "solve_ivp (\<lambda>t n. population_balance t n (sizes p) (G_avg fl) w)
             (0, chamber_time fl) (concentrations p) (linspace 0 (chamber_time fl) 100) = Inr sol"
    and "sol_y sol \<noteq> []"
  shows "chamber_step solve_ivp fl w c (p, res) =
           Inr (p\<lparr>concentrations := last (sol_y sol)\<rparr>,
                res @
                [\<lparr>chamber = c + 1, time = linspace 0 (chamber_time fl) 100,
                  distribution = sol_y sol,
                  mean_sizes =
                    map (\<lambda>dist. np_div (trapz (map2 (*) (sizes p) dist) (sizes p))
                                        (trapz dist (sizes p)))
                      (sol_y sol)\<rparr>])"
  using assms by (simp add: chamber_step_def Let_def)

lemma chamber_step_raised:
  assumes "solve_ivp (\<lambda>t n. population_balance t n (sizes p) (G_avg fl) w)
             (0, chamber_time fl) (concentrations p) (linspace 0 (chamber_time fl) 100) = Inl err"
  shows "chamber_step solve_ivp fl w c (p, res) = Inl err"
  using assms by (simp add: chamber_step_def Let_def)

lemma chamber_step_no_state:
  assumes "solve_ivp (\<lambda>t n. population_balance t n (sizes p) (G_avg fl) w)
             (0, chamber_time fl) (concentrations p) (linspace 0 (chamber_time fl) 100) = Inr sol"
    and "sol_y sol = []"
  shows "chamber_step solve_ivp fl w c (p, res) = Inl IndexError"
  using assms by (simp add: chamber_step_def Let_def)

lemma chamber_step_total:
  assumes "\<forall>f ts y0 te. \<exists>sol. solve_ivp f ts y0 te = Inr sol \<and> sol_y sol \<noteq> []"
  shows "\<exists>p' r. chamber_step solve_ivp fl w c (p, res) = Inr (p', res @ [r]) \<and> chamber r = c + 1
             \<and> sizes p' = sizes p \<and> distribution r \<noteq> []
             \<and> concentrations p' = last (distribution r)"
proof -
  obtain sol where s: "solve_ivp (\<lambda>t n. population_balance t n (sizes p) (G_avg fl) w)
             (0, chamber_time fl) (concentrations p) (linspace 0 (chamber_time fl) 100) = Inr sol"
    and y: "sol_y sol \<noteq> []"
    using assms by blast
  show ?thesis
    using chamber_step_returned [of solve_ivp p fl w sol c res] s y by simp
qed

lemma chamber_loop_total:
  assumes "\<forall>f ts y0 te. \<exists>sol. solve_ivp f ts y0 te = Inr sol \<and> sol_y sol \<noteq> []"
    and "res \<noteq> [] \<longrightarrow> concentrations p = last (distribution (last res))"
  shows "\<exists>p' res'. chamber_loop solve_ivp fl w cs (p, res) = Inr (p', res')
           \<and> map chamber res' = map chamber res @ map (\<lambda>c. c + 1) cs
           \<and> sizes p' = sizes p
           \<and> (cs = [] \<and> res = [] \<longrightarrow> p' = p)
           \<and> (res' \<noteq> [] \<longrightarrow> concentrations p' = last (distribution (last res')))"
  using assms(2)
proof (induction cs arbitrary: p res)
  case Nil
  then show ?case by simp
next
  case (Cons c cs)
  obtain p1 r where s: "chamber_step solve_ivp fl w c (p, res) = Inr (p1, res @ [r])"
    and r: "chamber r = c + 1" "sizes p1 = sizes p" "concentrations p1 = last (distribution r)"
    using chamber_step_total [OF assms(1)] by blast
  have inv: "res @ [r] \<noteq> [] \<longrightarrow> concentrations p1 = last (distribution (last (res @ [r])))"
    using r by simp
  obtain p' res' where l: "chamber_loop solve_ivp fl w cs (p1, res @ [r]) = Inr (p', res')"
    and m: "map chamber res' = map chamber (res @ [r]) @ map (\<lambda>c. c + 1) cs"
      "sizes p' = sizes p1"
      "res' \<noteq> [] \<longrightarrow> concentrations p' = last (distribution (last res'))"
    using Cons.IH [OF inv] by blast
  show ?case using s r l m by simp
qed

text \<open>
  C4, as amended. \<open>Flocculation.process\<close> does not read the outcome of the integration:
  its result is the same whatever status and success flag the solver reports. In a chamber
  where the solver returns a result with at least one state, failed or not, the last state
  becomes the chamber's output concentrations, the chamber's record (index, time grid,
  trajectory, mean sizes) is appended, and the loop goes on to the next chamber from that
  state; an exception of the solver leaves the loop, and a result without any state is an
  \<^verbatim>\<open>IndexError\<close>. With no chamber the input is returned; with \<open>k + 1\<close> chambers the stage is
  the stage with \<open>k\<close> chambers followed by one more chamber step. So when the solver always
  hands back a state, the stage returns normally with a record for every chamber, numbered
  from 1, the sizes unchanged and the concentrations the last state of the last chamber.
\<close>

theorem Flocculation_process_ignores_solver_outcome:
  "Flocculation_process (with_outcome solve_ivp st ok) fl w p
     = Flocculation_process solve_ivp fl w p
   \<and> (solve_ivp (\<lambda>t n. population_balance t n (sizes p) (G_avg fl) w)
         (0, chamber_time fl) (concentrations p) (linspace 0 (chamber_time fl) 100) = Inr sol
       \<longrightarrow> sol_y sol \<noteq> []
       \<longrightarrow> chamber_step solve_ivp fl w c (p, res) =
             Inr (p\<lparr>concentrations := last (sol_y sol)\<rparr>,
                  res @
                  [\<lparr>chamber = c + 1, time = linspace 0 (chamber_time fl) 100,
                    distribution = sol_y sol,
                    mean_sizes =
                      map (\<lambda>dist. np_div (trapz (map2 (*) (sizes p) dist) (sizes p))
                                          (trapz dist (sizes p)))
                        (sol_y sol)\<rparr>]))
   \<and> (solve_ivp (\<lambda>t n. population_balance t n (sizes p) (G_avg fl) w)
         (0, chamber_time fl) (concentrations p) (linspace 0 (chamber_time fl) 100) = Inr sol
       \<longrightarrow> sol_y sol = []
       \<longrightarrow> chamber_step solve_ivp fl w c (p, res) = Inl IndexError)
   \<and> (solve_ivp (\<lambda>t n. population_balance t n (sizes p) (G_avg fl) w)
         (0, chamber_time fl) (concentrations p) (linspace 0 (chamber_time fl) 100) = Inl err
       \<longrightarrow> chamber_step solve_ivp fl w c (p, res) = Inl err)
   \<and> (chambers fl \<le> 0 \<longrightarrow> Flocculation_process solve_ivp fl w p = Inr (p, []))
   \<and> Flocculation_process solve_ivp (fl\<lparr>chambers := int (Suc k)\<rparr>) w p =
       (case Flocculation_process solve_ivp (fl\<lparr>chambers := int k\<rparr>) w p of
          Inl e \<Rightarrow> Inl e
        | Inr s \<Rightarrow> chamber_step solve_ivp fl w k s)
   \<and> ((\<forall>f ts y0 te. \<exists>sol. solve_ivp f ts y0 te = Inr sol \<and> sol_y sol \<noteq> []) \<longrightarrow>
        (\<exists>p' rs. Flocculation_process solve_ivp fl w p = Inr (p', rs)
           \<and> map chamber rs = map (\<lambda>c. c + 1) [0..<nat (chambers fl)]
           \<and> sizes p' = sizes p
           \<and> (rs \<noteq> [] \<longrightarrow> concentrations p' = last (distribution (last rs)))))"
proof -
  have a: "Flocculation_process (with_outcome solve_ivp st ok) fl w p
             = Flocculation_process solve_ivp fl w p"
    by (simp add: Flocculation_process_def chamber_loop_outcome)
  have z: "chambers fl \<le> 0 \<longrightarrow> Flocculation_process solve_ivp fl w p = Inr (p, [])"
    by (simp add: Flocculation_process_def)
  have r: "Flocculation_process solve_ivp (fl\<lparr>chambers := int (Suc k)\<rparr>) w p =
       (case Flocculation_process solve_ivp (fl\<lparr>chambers := int k\<rparr>) w p of
          Inl e \<Rightarrow> Inl e
        | Inr s \<Rightarrow> chamber_step solve_ivp fl w k s)"
  proof -
    have "Flocculation_process solve_ivp (fl\<lparr>chambers := int (Suc k)\<rparr>) w p
            = chamber_loop solve_ivp fl w ([0..<k] @ [k]) (p, [])"
      by (simp add: Flocculation_process_def chamber_loop_chambers del: of_nat_Suc)
    moreover have "Flocculation_process solve_ivp (fl\<lparr>chambers := int k\<rparr>) w p
            = chamber_loop solve_ivp fl w [0..<k] (p, [])"
      by (simp add: Flocculation_process_def chamber_loop_chambers)
    ultimately show ?thesis by (simp only: chamber_loop_snoc)
  qed
  have t: "(\<forall>f ts y0 te. \<exists>sol. solve_ivp f ts y0 te = Inr sol \<and> sol_y sol \<noteq> []) \<longrightarrow>
        (\<exists>p' rs. Flocculation_process solve_ivp fl w p = Inr (p', rs)
           \<and> map chamber rs = map (\<lambda>c. c + 1) [0..<nat (chambers fl)]
           \<and> sizes p' = sizes p
           \<and> (rs \<noteq> [] \<longrightarrow> concentrations p' = last (distribution (last rs))))"
  proof
    assume h: "\<forall>f ts y0 te. \<exists>sol. solve_ivp f ts y0 te = Inr sol \<and> sol_y sol \<noteq> []"
    have i: "([]::chamber_result list) \<noteq> [] \<longrightarrow> concentrations p = last (distribution (last []))"
      by simp
    from chamber_loop_total [OF h i, of fl w "[0..<nat (chambers fl)]"]
    show "\<exists>p' rs. Flocculation_process solve_ivp fl w p = Inr (p', rs)
           \<and> map chamber rs = map (\<lambda>c. c + 1) [0..<nat (chambers fl)]
           \<and> sizes p' = sizes p
           \<and> (rs \<noteq> [] \<longrightarrow> concentrations p' = last (distribution (last rs)))"
      unfolding Flocculation_process_def by auto
  qed
  show ?thesis
    using a z r t chamber_step_returned [of solve_ivp p fl w sol c res]
      chamber_step_no_state [of solve_ivp p fl w sol c res]
      chamber_step_raised [of solve_ivp p fl w err c res]
    by blast
qed

theorem Flocculation_process_ignores_failing_solver:
  "(\<forall>f ts y0 te. \<exists>sol. failing_solver f ts y0 te = Inr sol \<and> sol_y sol \<noteq> [])
   \<and> (\<exists>p' rs. Flocculation_process failing_solver floc0 water0 particles0 = Inr (p', rs)
       \<and> map chamber rs = map (\<lambda>c. c + 1) [0..<nat (chambers floc0)]
       \<and> sizes p' = sizes particles0
       \<and> (rs \<noteq> [] \<longrightarrow> concentrations p' = last (distribution (last rs))))
   \<and> Flocculation_process (with_outcome failing_solver 0 True) floc0 water0 particles0
       = Flocculation_process failing_solver floc0 water0 particles0"
proof -
  have h: "\<forall>f ts y0 te. \<exists>sol. failing_solver f ts y0 te = Inr sol \<and> sol_y sol \<noteq> []"
    by (simp add: failing_solver_def)
  show ?thesis
    using h Flocculation_process_ignores_solver_outcome
              [of failing_solver 0 True floc0 water0 particles0]
    by blast
qed

text \<open>
  The claim as written fails on the solver that fails in every chamber: the stage returns
  normally, with the unintegrated concentrations and a record for each of the three
  chambers.
\<close>

theorem Flocculation_process_continues_after_failure:
  "Flocculation_process failing_solver floc0 water0 particles0 =
     Inr (particles0,
          [\<lparr>chamber = 1, time = linspace 0 600 100, distribution = [[1, 1]],
            mean_sizes = [Some (3 / 2)]\<rparr>,
           \<lparr>chamber = 2, time = linspace 0 600 100, distribution = [[1, 1]],
            mean_sizes = [Some (3 / 2)]\<rparr>,
           \<lparr>chamber = 3, time = linspace 0 600 100, distribution = [[1, 1]],
            mean_sizes = [Some (3 / 2)]\<rparr>])"
  by (simp add: Flocculation_process_def upt_0_3 chamber_step_def failing_solver_def floc0_def
      particles0_def np_div_def Let_def)

section \<open>Stage entry\<close>

text \<open>
  C5, as amended. Nothing is validated at stage entry. \<open>add_coagulant\<close> has no failure mode
  at all: for every dose it returns the stored pH and alkalinity, and a negative dose is
  accepted, leaving the pH as it was and raising the alkalinity by the negative
  consumption. The constructors accept negative volumes, areas, times and chamber counts;
  their one failure is the \<^verbatim>\<open>ZeroDivisionError\<close> of the division by a chamber count, a
  flow rate or an overflow rate of zero.
\<close>

theorem stage_entry_checks_nothing:
  "(\<exists>w'. add_coagulant has_pyeql dose volume w = ((pH w', alkalinity w'), w'))
   \<and> (dose < 0 \<longrightarrow>
        pH (snd (add_coagulant has_pyeql dose volume w)) = pH w \<and>
        alkalinity (snd (add_coagulant has_pyeql dose volume w))
          = max 0 (alkalinity w + (- dose / 342.15) * 6 * 100.09 * 1000))
   \<and> Flocculation_init n v g t =
        (if n = 0 then Inl ZeroDivisionError
         else Inr \<lparr>chambers = n, total_volume = v, G_avg = g, total_time = t,
                   chamber_volume = v / real_of_int n, chamber_time = t / real_of_int n\<rparr>)
   \<and> RapidMixing_init v flow g t =
        (if flow = 0 then Inl ZeroDivisionError
         else Inr \<lparr>rm_volume = v, rm_flow_rate = flow, rm_G = g, rm_mixing_time = t,
                   rm_residence_time = v / (flow / 3600)\<rparr>)
   \<and> Sedimentation_init a h rate =
        (if rate = 0 then Inl ZeroDivisionError
         else Inr \<lparr>area = a, height = h, overflow_rate = rate,
                   residence_time = h / (rate / 3600)\<rparr>)"
  by (auto simp add: add_coagulant_def Let_def Flocculation_init_def RapidMixing_init_def
      Sedimentation_init_def py_div_def)

theorem stage_entry_checks_nothing_negative:
  "(- 1::real) < 0
   \<and> pH (snd (add_coagulant False (- 1) 10 water0)) = pH water0
   \<and> alkalinity (snd (add_coagulant False (- 1) 10 water0))
       = max 0 (alkalinity water0 + (- (- 1) / 342.15) * 6 * 100.09 * 1000)
   \<and> Flocculation_init 0 200 50 1800 = Inl ZeroDivisionError
   \<and> Sedimentation_init (- 100) (- 3) 10
       = Inr \<lparr>area = - 100, height = - 3, overflow_rate = 10, residence_time = - 3 / (10 / 3600)\<rparr>"
proof -
  have h: "(- 1::real) < 0" by simp
  show ?thesis
    using h stage_entry_checks_nothing [of False "- 1" 10 water0 0 200 50 1800 100 "- 100" "- 3" 10]
    by simp
qed

text \<open>
  The claim as written fails on a dose of \<open>-0.02\<close> and on a chamber count of \<open>-3\<close>: both
  calls return normally.
\<close>

theorem negative_dose_and_chamber_count_accepted:
  "add_coagulant False (- 0.02) 10 water0
     = ((7.5, 120 + 0.02 / 342.15 * 6 * 100.09 * 1000),
        water0\<lparr>alkalinity := 120 + 0.02 / 342.15 * 6 * 100.09 * 1000\<rparr>)
   \<and> Flocculation_init (- 3) 200 50 1800
     = Inr \<lparr>chambers = - 3, total_volume = 200, G_avg = 50, total_time = 1800,
            chamber_volume = - (200 / 3), chamber_time = - 600\<rparr>"
  by (simp add: add_coagulant_def Let_def Flocculation_init_def py_div_def water0_def)

section \<open>Sedimentation\<close>

lemma trapz_mono:
  "sorted xs \<Longrightarrow> list_all2 (\<le>) es cs \<Longrightarrow> trapz es xs \<le> trapz cs xs"
proof (induction es xs arbitrary: cs rule: trapz.induct)
  case (1 y0 y1 ys x0 x1 xs)
  from "1.prems"(2) obtain c0 c1 cs' where cs: "cs = c0 # c1 # cs'"
    and le: "y0 \<le> c0" "y1 \<le> c1" and rest: "list_all2 (\<le>) (y1 # ys) (c1 # cs')"
    by (auto simp add: list_all2_Cons1)
  have "x0 \<le> x1" and "sorted (x1 # xs)" using "1.prems"(1) by simp_all
  then have "trapz (y1 # ys) (x1 # xs) \<le> trapz (c1 # cs') (x1 # xs)"
    using "1.IH" rest by blast
  moreover have "(x1 - x0) * (y1 + y0) / 2 \<le> (x1 - x0) * (c1 + c0) / 2"
    using le \<open>x0 \<le> x1\<close> by (simp add: mult_left_mono)
  ultimately show ?case using cs by simp
qed (auto simp add: list_all2_Cons1)

lemma Cd_pos: "0 < (r::real) \<Longrightarrow> 0 < 24 / r + 3 / sqrt r + 0.34"
  by (intro add_pos_pos divide_pos_pos) simp_all

lemma settling_velocity_nonneg:
  assumes "0 < d" and "0 < viscosity w" and "0 < density w" and "density w < rho_p"
  shows "0 \<le> settling_velocity d rho_p w"
proof -
  let ?vs = "9.81 * (d * (1 / 10 ^ 6)) ^ 2 * (rho_p - density w) / (18 * viscosity w)"
  let ?Re = "density w * ?vs * (d * (1 / 10 ^ 6)) / viscosity w"
  have vs: "0 \<le> ?vs" using assms by simp
  show ?thesis
  proof (cases "?Re > 0.1")
    case True
    then have Re: "0 < ?Re" by linarith
    then have "0 < 24 / ?Re + 3 / sqrt ?Re + 0.34"
      by (rule Cd_pos)
    then have "0 \<le> 4 * 9.81 * (d * (1 / 10 ^ 6)) * (rho_p - density w)
                 / (3 * (24 / ?Re + 3 / sqrt ?Re + 0.34) * density w)"
      using assms by simp
    then show ?thesis using True
      unfolding settling_velocity_def Let_def by (simp del: times_divide_eq_right times_divide_eq_left)
  next
    case False
    then show ?thesis using vs
      unfolding settling_velocity_def Let_def by (simp del: times_divide_eq_right times_divide_eq_left)
  qed
qed

lemma hindered_settling_nonneg: "0 \<le> vs0 \<Longrightarrow> 0 \<le> hindered_settling vs0 c rho_p n"
  by (simp add: hindered_settling_def Let_def)

lemma removal_efficiency_range:
  assumes len: "length (sizes p) = length (concentrations p)"
    and srt: "sorted (sizes p)"
    and pos: "\<forall>s\<in>set (sizes p). 0 < s"
    and nonneg: "\<forall>c\<in>set (concentrations p). 0 \<le> c"
    and sed: "0 < height sed" "0 < residence_time sed"
    and w: "0 < viscosity w" "0 < density w" "density w < floc_density"
  shows "removal_efficiency (Sedimentation_process sed w p floc_density) =
           (if trapz (concentrations p) (sizes p) = 0 then None
            else Some ((trapz (concentrations p) (sizes p)
                         - effluent_concentration (Sedimentation_process sed w p floc_density))
                        / trapz (concentrations p) (sizes p) * 100))"
    and "0 \<le> effluent_concentration (Sedimentation_process sed w p floc_density)"
    and "effluent_concentration (Sedimentation_process sed w p floc_density)
           \<le> trapz (concentrations p) (sizes p)"
proof -
  let ?I = "trapz (concentrations p) (sizes p)"
  let ?rs = "map (\<lambda>d. min 1.0 (hindered_settling (settling_velocity d floc_density w) ?I
                                   floc_density 4.65 * residence_time sed / height sed))
               (sizes p)"
  let ?eff = "map2 (\<lambda>c r. c * (1 - r)) (concentrations p) ?rs"
  have F: "effluent_concentration (Sedimentation_process sed w p floc_density) = trapz ?eff (sizes p)"
    by (simp add: Sedimentation_process_def Let_def comp_def)
  show "removal_efficiency (Sedimentation_process sed w p floc_density) =
           (if ?I = 0 then None
            else Some ((?I - effluent_concentration (Sedimentation_process sed w p floc_density))
                        / ?I * 100))"
    by (simp add: Sedimentation_process_def Let_def np_div_def comp_def)
  have rs: "\<forall>r\<in>set ?rs. 0 \<le> r \<and> r \<le> 1"
  proof
    fix r assume "r \<in> set ?rs"
    then obtain d where d: "d \<in> set (sizes p)"
      and r: "r = min 1.0 (hindered_settling (settling_velocity d floc_density w) ?I floc_density 4.65
                             * residence_time sed / height sed)"
      by auto
    have "0 \<le> hindered_settling (settling_velocity d floc_density w) ?I floc_density 4.65"
      using d pos w by (intro hindered_settling_nonneg settling_velocity_nonneg) auto
    then have "0 \<le> hindered_settling (settling_velocity d floc_density w) ?I floc_density 4.65
                             * residence_time sed / height sed"
      using sed by simp
    then show "0 \<le> r \<and> r \<le> 1" using r by simp
  qed
  have lrs: "length ?rs = length (concentrations p)" using len by simp
  have le: "list_all2 (\<le>) ?eff (concentrations p)"
    unfolding list_all2_conv_all_nth
  proof (intro conjI allI impI)
    show "length ?eff = length (concentrations p)" using lrs by simp
  next
    fix i assume i: "i < length ?eff"
    then have ic: "i < length (concentrations p)" and ir: "i < length ?rs" using lrs by simp_all
    have "0 \<le> concentrations p ! i" using nonneg ic by simp
    moreover have "0 \<le> ?rs ! i" using rs ir nth_mem by blast
    ultimately have "concentrations p ! i * (1 - ?rs ! i) \<le> concentrations p ! i"
      by (simp add: mult_left_le)
    then show "?eff ! i \<le> concentrations p ! i" using ic ir by simp
  qed
  have ge: "list_all2 (\<le>) (map (\<lambda>c. 0) (concentrations p)) ?eff"
    unfolding list_all2_conv_all_nth
  proof (intro conjI allI impI)
    show "length (map (\<lambda>c. 0::real) (concentrations p)) = length ?eff" using lrs by simp
  next
    fix i assume i: "i < length (map (\<lambda>c. 0::real) (concentrations p))"
    then have ic: "i < length (concentrations p)" and ir: "i < length ?rs" using lrs by simp_all
    have "0 \<le> concentrations p ! i" using nonneg ic by simp
    moreover have "?rs ! i \<le> 1" using rs ir nth_mem by blast
    ultimately have "0 \<le> concentrations p ! i * (1 - ?rs ! i)" by simp
    then show "map (\<lambda>c. 0::real) (concentrations p) ! i \<le> ?eff ! i" using ic ir by simp
  qed
  have z: "trapz (map (\<lambda>c. 0::real) cs) xs = 0" for cs :: "real list" and xs
    by (induction cs xs rule: trapz.induct) simp_all
  show "0 \<le> effluent_concentration (Sedimentation_process sed w p floc_density)"
    using trapz_mono[OF srt ge] by (simp add: F z)
  show "effluent_concentration (Sedimentation_process sed w p floc_density) \<le> ?I"
    using trapz_mono[OF srt le] by (simp add: F)
qed


lemma trapz_nonneg:
  assumes "sorted xs" and "\<forall>c\<in>set cs. 0 \<le> c"
  shows "0 \<le> trapz cs xs"
proof -
  have z: "trapz (map (\<lambda>c. 0::real) ys) xs = 0" for ys :: "real list"
    by (induction ys xs rule: trapz.induct) simp_all
  have "list_all2 (\<le>) (map (\<lambda>c. 0::real) cs) cs"
    using assms(2) by (simp add: list_all2_conv_all_nth)
  from trapz_mono [OF assms(1) this] show ?thesis by (simp add: z)
qed

text \<open>
  C2. On the distribution without mass \<open>Sedimentation.process\<close> raises nothing, and the
  effluent is zero in every bin; the overall efficiency is the unguarded quotient
  \<open>(0 - 0) / 0 * 100\<close>, which is \<^verbatim>\<open>nan\<close> and not 0.
\<close>

theorem Sedimentation_process_zero_mass:
  "effluent_concentration (Sedimentation_process sed0 water0 zero_particles 1200) = 0
   \<and> size_distribution (Sedimentation_process sed0 water0 zero_particles 1200) = [0, 0]
   \<and> removal_efficiency (Sedimentation_process sed0 water0 zero_particles 1200) = None"
  by (simp add: Sedimentation_process_def zero_particles_def np_div_def Let_def)

text \<open>
  C3. For a settler built from positive area, height and overflow rate, increasing positive
  sizes, non-negative concentrations, positive viscosity and water density and a floc
  denser than water: when the initial total mass is not zero the overall efficiency is a
  number between 0 and 100; when it is zero the efficiency is \<^verbatim>\<open>nan\<close>, outside the
  bounds.
\<close>

theorem Sedimentation_process_efficiency_range:
  assumes init: "Sedimentation_init a h rate = Inr sed"
    and tank: "0 < a" "0 < h" "0 < rate"
    and len: "length (sizes p) = length (concentrations p)"
    and srt: "sorted (sizes p)"
    and pos: "\<forall>s\<in>set (sizes p). 0 < s"
    and nonneg: "\<forall>c\<in>set (concentrations p). 0 \<le> c"
    and w: "0 < viscosity w" "0 < density w" "density w < floc_density"
  shows "(trapz (concentrations p) (sizes p) = 0 \<longrightarrow>
            removal_efficiency (Sedimentation_process sed w p floc_density) = None)
       \<and> (trapz (concentrations p) (sizes p) \<noteq> 0 \<longrightarrow>
            (\<exists>e. removal_efficiency (Sedimentation_process sed w p floc_density) = Some e
                 \<and> 0 \<le> e \<and> e \<le> 100))"
proof -
  let ?I = "trapz (concentrations p) (sizes p)"
  let ?F = "effluent_concentration (Sedimentation_process sed w p floc_density)"
  have sed: "height sed = h" "residence_time sed = h / (rate / 3600)"
    using init tank by (auto simp add: Sedimentation_init_def py_div_def split: if_splits)
  have hs: "0 < height sed" "0 < residence_time sed"
    using sed tank by simp_all
  note r = removal_efficiency_range [OF len srt pos nonneg hs w]
  have I0: "0 \<le> ?I" using trapz_nonneg [OF srt nonneg] .
  show ?thesis
  proof (intro conjI impI)
    assume "?I = 0"
    then show "removal_efficiency (Sedimentation_process sed w p floc_density) = None"
      using r(1) by simp
  next
    assume "?I \<noteq> 0"
    then have I: "0 < ?I" using I0 by simp
    have pct: "0 \<le> q * 100 \<and> q * 100 \<le> 100" if "0 \<le> q" and "q \<le> 1" for q :: real
      using that by simp
    have lo: "0 \<le> (?I - ?F) / ?I" using I r(3) by simp
    have hi: "(?I - ?F) / ?I \<le> 1" using I r(2) by (simp add: divide_le_eq)
    have "0 \<le> (?I - ?F) / ?I * 100 \<and> (?I - ?F) / ?I * 100 \<le> 100"
      by (rule pct [OF lo hi])
    then show "\<exists>e. removal_efficiency (Sedimentation_process sed w p floc_density) = Some e
                 \<and> 0 \<le> e \<and> e \<le> 100"
      using r(1) \<open>?I \<noteq> 0\<close> by simp
  qed
qed

theorem Sedimentation_process_efficiency_range_two_bins:
  "Sedimentation_init 100 3 10 = Inr sed0
   \<and> (0::real) < 100 \<and> (0::real) < 3 \<and> (0::real) < 10
   \<and> length (sizes particles0) = length (concentrations particles0)
   \<and> sorted (sizes particles0)
   \<and> 0 < viscosity water0 \<and> 0 < density water0 \<and> density water0 < 1200
   \<and> trapz (concentrations particles0) (sizes particles0) \<noteq> 0
   \<and> (\<exists>e. removal_efficiency (Sedimentation_process sed0 water0 particles0 1200) = Some e
          \<and> 0 \<le> e \<and> e \<le> 100)
   \<and> trapz (concentrations zero_particles) (sizes zero_particles) = 0
   \<and> removal_efficiency (Sedimentation_process sed0 water0 zero_particles 1200) = None"
proof -
  have t: "(0::real) < 100" "(0::real) < 3" "(0::real) < 10" by simp_all
  have w: "0 < viscosity water0" "0 < density water0" "density water0 < 1200"
    by (simp_all add: water0_def)
  have p: "length (sizes particles0) = length (concentrations particles0)"
    "sorted (sizes particles0)" "\<forall>s\<in>set (sizes particles0). 0 < s"
    "\<forall>c\<in>set (concentrations particles0). 0 \<le> c"
    by (simp_all add: particles0_def)
  have z: "length (sizes zero_particles) = length (concentrations zero_particles)"
    "sorted (sizes zero_particles)" "\<forall>s\<in>set (sizes zero_particles). 0 < s"
    "\<forall>c\<in>set (concentrations zero_particles). 0 \<le> c"
    by (simp_all add: zero_particles_def)
  have mp: "trapz (concentrations particles0) (sizes particles0) \<noteq> 0"
    by (simp add: particles0_def)
  have mz: "trapz (concentrations zero_particles) (sizes zero_particles) = 0"
    by (simp add: zero_particles_def)
  note a = Sedimentation_process_efficiency_range [OF Sedimentation_init_baseline t p w]
  note b = Sedimentation_process_efficiency_range [OF Sedimentation_init_baseline t z w]
  show ?thesis
    using Sedimentation_init_baseline t w p(1,2) mp mz a b by blast
qed

end
